theory Spec2Isabelle
  imports Complex_Main "HOL-Library.Sublist" "HOL-Library.AList"
begin

section \<open>JavaScript values shared by both programs\<close>

text \<open>
  A JavaScript number as far as the two programs look at it: \<open>NaN\<close>, the two infinities,
  or a finite value. Every finite double is a rational, and negative zero behaves like zero
  in every operation used here (truthiness, truncation), so \<open>Num 0\<close> stands for both.
\<close>

datatype jsnum = NaN | PosInf | NegInf | Num rat


text \<open>
  The objects that the two programs index by a stop name (\<open>overrides\<close>, \<open>output.stops\<close>,
  \<open>coords\<close>) are plain objects: a lookup \<open>obj[name]\<close> finds an own property first and then a
  member of \<open>Object.prototype\<close>. These are the names of its members in ECMAScript with the
  additions that Node and the browsers have. Every member is truthy (a function, or the
  prototype object itself for \<open>__proto__\<close>).
\<close>

definition objectPrototypeMembers :: "string list" where
  "objectPrototypeMembers =
   [''constructor'', ''hasOwnProperty'', ''isPrototypeOf'', ''propertyIsEnumerable'',
    ''toLocaleString'', ''toString'', ''valueOf'', ''__proto__'', ''__defineGetter__'',
    ''__defineSetter__'', ''__lookupGetter__'', ''__lookupSetter__'']"

text \<open>
  What a lookup can give: \<open>Val x\<close> is a value of the kind the object is meant to hold,
  \<open>Member m\<close> is the member \<open>m\<close> of \<open>Object.prototype\<close>; \<open>None\<close> is \<open>undefined\<close>. The own
  properties are a map.
\<close>

datatype 'a jsval = Val 'a | Member string

definition get_prop :: "(string \<rightharpoonup> 'a) \<Rightarrow> string \<Rightarrow> 'a jsval option" where
  "get_prop obj name =
     (case obj name of
        Some x \<Rightarrow> Some (Val x)
      | None \<Rightarrow> if name \<in> set objectPrototypeMembers then Some (Member name) else None)"

section \<open>The stop name resolver: \<open>scripts/geocodeStops.mjs\<close>\<close>

subsection \<open>The static tables\<close>

text \<open>
  The object \<open>overrides\<close> is read as \<open>overrides[name]\<close>; its own properties are an
  association list here and the lookup is \<open>get_prop\<close> on \<open>map_of overrides\<close>. All of its
  values are non-empty strings, so whatever the lookup finds is truthy.
\<close>

definition overrides :: "(string \<times> string) list" where
  "overrides =
   [(''1e C. Huygensstraat'', ''1e Constantijn Huygensstraat, Amsterdam, Netherlands''),
    (''1e Con. Huygensstraat'', ''1e Constantijn Huygensstraat, Amsterdam, Netherlands''),
    (''Burg. Eliasstraat'', ''Burgemeester Eliasstraat, Amsterdam, Netherlands''),
    (''Aachen Hbf'', ''Aachen Hauptbahnhof, Aachen, Germany''),
    (''Amsterdam, Mosplein'', ''Mosplein, Amsterdam, Netherlands''),
    (''Amsterdam, Stenendokweg'', ''Stenendokweg, Amsterdam, Netherlands''),
    (''Apeldoorn, De Veenkamp'', ''De Veenkamp, Apeldoorn, Netherlands''),
    (''Apeldoorn, Gedenknaald'', ''Gedenknaald, Apeldoorn, Netherlands''),
    (''Apeldoorn, Station'', ''Station Apeldoorn, Apeldoorn, Netherlands''),
    (''Centraal Station'', ''Amsterdam Centraal Station, Amsterdam, Netherlands''),
    (''Centrum'', ''Centrum, Den Haag, Netherlands''),
    (''C. van Eesterenlaan'', ''C. van Eesterenlaan, Amsterdam, Netherlands''),
    (''Den Helder, Station'', ''Station Den Helder, Den Helder, Netherlands''),
    (''Den Helder, Steiger Teso'', ''Steiger TESO, Den Helder, Netherlands''),
    (''Frederik Hendrikplnts'', ''Frederik Hendrikplantsoen, Amsterdam, Netherlands''),
    (''Heemstede, Stat.Heemstede-Aerd'', ''Station Heemstede-Aerdenhout, Heemstede, Netherlands''),
    (''J.P. Heijestraat'', ''Jan Pieter Heijestraat, Amsterdam, Netherlands''),
    (''Kievitslaan'', ''Kievitslaan, Rotterdam, Netherlands''),
    (''muziekgebouw Bimhuis'', ''Bimhuis, Amsterdam, Netherlands''),
    (''Noord'', ''Amsterdam Noord, Amsterdam, Netherlands''),
    (''Purmerend, Anne Franklaan'', ''Anne Franklaan, Purmerend, Netherlands''),
    (''Purmerend, Churchilllaan'', ''Churchilllaan, Purmerend, Netherlands''),
    (''Purmerend, Kelvinstraat'', ''Kelvinstraat, Purmerend, Netherlands''),
    (''Purmerend, Station Overwhere'', ''Station Overwhere, Purmerend, Netherlands''),
    (''Purmerend, Tramplein'', ''Tramplein, Purmerend, Netherlands''),
    (''Purmerend, Veenweidestraat'', ''Veenweidestraat, Purmerend, Netherlands''),
    (''Schev.slag/beelden aan Zee'', ''Beelden aan Zee, Scheveningen, Den Haag, Netherlands''),
    (''Station Blaak'', ''Rotterdam Blaak, Rotterdam, Netherlands''),
    (''Station Hollands Spoor'', ''Den Haag Hollands Spoor, Den Haag, Netherlands''),
    (''Station Lelylaan'', ''Amsterdam Lelylaan, Amsterdam, Netherlands''),
    (''Station Mariahoeve'', ''Den Haag Mariahoeve, Den Haag, Netherlands''),
    (''Station Zuid'', ''Amsterdam Zuid, Amsterdam, Netherlands''),
    (''Van der Woertstraat'', ''Van der Woertstraat, Den Haag, Netherlands''),
    (''Vogelenzang, Waterleiding'', ''Waterleiding, Vogelenzang, Netherlands''),
    (''Zandvoort, Waterleiding/nw. Un'', ''Waterleiding, Zandvoort, Netherlands''),
    (''Zandvoort, Zandvoort Centrum'', ''Zandvoort Centrum, Zandvoort, Netherlands'')]"

definition denHaagStops :: "string list" where
  "denHaagStops =
   [''Bierkade'', ''Hofzichtlaan'', ''Kievitslaan'', ''Kneuterdijk'', ''Kunstmuseum'',
    ''Kurhaus'', ''Schev.slag/beelden aan Zee'', ''Statenplein'', ''Vredespaleis'',
    ''Den Haag HS'', ''Den Haag Centraal'', ''Den Haag Mariahoeve'',
    ''Station Hollands Spoor'', ''Station Mariahoeve'', ''Centrum'']"

definition rotterdamStops :: "string list" where
  "rotterdamStops =
   [''Kruisplein'', ''Leuvehaven'', ''Nieuwe Haven'', ''Vasteland'', ''Weena'',
    ''Witte de Withstraat'', ''Woudestein'', ''Museumpark'', ''Rotterdam Centraal'',
    ''Rotterdam Blaak'', ''Station Blaak'']"

definition purmerendStops :: "string list" where
  "purmerendStops =
   [''Purmerend Overwhere'', ''Purmerend, Anne Franklaan'', ''Purmerend, Churchilllaan'',
    ''Purmerend, Kelvinstraat'', ''Purmerend, Signaal'', ''Purmerend, Station Overwhere'',
    ''Purmerend, Tramplein'', ''Purmerend, Veenweidestraat'']"

definition zandvoortStops :: "string list" where
  "zandvoortStops =
   [''Zandvoort, Waterleiding/nw. Un'', ''Zandvoort, Zandvoort Centrum'', ''Zandvoort aan Zee'']"

definition allCityPrefixes :: "string list" where
  "allCityPrefixes =
   [''Amsterdam'', ''Rotterdam'', ''Den Haag'', ''Purmerend'', ''Zaandam'', ''Zandvoort'',
    ''Apeldoorn'', ''Arnhem'', ''Breda'', ''Delft'', ''Enschede'', ''Haarlem'', ''Heerlen'',
    ''Maastricht'', ''Nijmegen'', ''Aachen'', ''Alkmaar'', ''Den Helder'', ''Schiphol'',
    ''Velp'', ''Dieren'', ''Uitgeest'', ''Overveen'', ''Santpoort Noord'',
    ''Heemstede-Aerdenhout'', ''Zaandijk Zaanse Schans'', ''Mook-Molenhoek'']"

subsection \<open>\<open>guessQuery\<close>\<close>

text \<open>
  \<open>null\<close> is \<open>None\<close>. The rules are tried in the order of the source. The result is a
  string, \<open>Val q\<close>, but for a name of a member of \<open>Object.prototype\<close>, where
  \<open>overrides[name]\<close> is that member and is returned as it is.
\<close>

definition guessQuery :: "string \<Rightarrow> string jsval option" where
  "guessQuery name =
     (if name = [] \<or> name = ''Onbekend'' then None
      else case get_prop (map_of overrides) name of
        Some q \<Rightarrow> Some q
      | None \<Rightarrow>
          if CHR '','' \<in> set name then Some (Val (name @ '', Netherlands''))
          else if list_ex (\<lambda>p. prefix p name) allCityPrefixes
            then Some (Val (name @ '', Netherlands''))
          else if name \<in> set denHaagStops then Some (Val (name @ '', Den Haag, Netherlands''))
          else if name \<in> set rotterdamStops then Some (Val (name @ '', Rotterdam, Netherlands''))
          else if name \<in> set purmerendStops then Some (Val (name @ '', Purmerend, Netherlands''))
          else if name \<in> set zandvoortStops then Some (Val (name @ '', Zandvoort, Netherlands''))
          else Some (Val (name @ '', Amsterdam, Netherlands'')))"

subsection \<open>\<open>geocode\<close>\<close>

text \<open>
  The request that \<open>geocode\<close> builds: the five search parameters of the URL and the
  \<open>User-Agent\<close> header. \<open>p_q\<close> is the value handed to \<open>searchParams.set\<close>, which the URL
  turns into text.
\<close>

record request =
  p_format :: string
  p_limit :: string
  p_addressdetails :: string
  p_q :: "string jsval"
  p_countrycodes :: string
  h_user_agent :: string

definition USER_AGENT :: string where
  "USER_AGENT = ''trains-visualizer/1.0 (local script)''"

definition mkRequest :: "string jsval \<Rightarrow> request" where
  "mkRequest query =
     \<lparr>p_format = ''jsonv2'', p_limit = ''1'', p_addressdetails = ''1'', p_q = query,
      p_countrycodes = ''nl,de,be'', h_user_agent = USER_AGENT\<rparr>"

text \<open>
  What the service can answer. \<open>fetch\<close> rejects (\<open>NetworkError\<close>), or it resolves to a
  response with its \<open>ok\<close> flag and status, whose body either fails to parse as JSON or is
  the array of matches. A match carries the texts of \<open>lat\<close> and \<open>lon\<close> and its
  \<open>display_name\<close>.
\<close>

record match =
  match_lat :: string
  match_lon :: string
  display_name :: string

datatype body = BadJson | Results "match list"

datatype fetch_result = NetworkError | Response bool nat body

datatype error = FetchFailed | RequestFailed nat string | InvalidJson

record entry =
  lat :: jsnum
  lng :: jsnum
  label :: string
  query :: "string jsval"

text \<open>
  \<open>geocode\<close> throws (\<open>Inl\<close>) when the request fails or the status is not a success,
  returns \<open>null\<close> (\<open>Inr None\<close>) when there is no match, and the first match otherwise.
  \<open>num\<close> is JavaScript's \<open>Number\<close> on strings, \<open>fetch\<close> the answer of the service to
  this request.
\<close>

definition geocode ::
  "(string \<Rightarrow> jsnum) \<Rightarrow> (request \<Rightarrow> fetch_result) \<Rightarrow> string \<Rightarrow> string jsval \<Rightarrow>
   error + entry option" where
  "geocode num fetch name qry =
     (case fetch (mkRequest qry) of
        NetworkError \<Rightarrow> Inl FetchFailed
      | Response ok status b \<Rightarrow>
          if \<not> ok then Inl (RequestFailed status name)
          else (case b of
                  BadJson \<Rightarrow> Inl InvalidJson
                | Results data \<Rightarrow>
                    (case data of
                       [] \<Rightarrow> Inr None
                     | m # _ \<Rightarrow>
                         Inr (Some \<lparr>lat = num (match_lat m), lng = num (match_lon m),
                                    label = display_name m, query = qry\<rparr>))))"

subsection \<open>\<open>main\<close>\<close>

text \<open>
  The store that is read from and written to \<open>stopCoords.json\<close>. \<open>stops\<close> is the object
  keyed by stop name, \<open>unmatched\<close> the array of names.
\<close>

record store =
  generatedAt :: "string option"
  stops :: "string \<rightharpoonup> entry"
  unmatched :: "string list"

text \<open>
  The state of a run: \<open>output_store\<close> is the object \<open>output\<close> in memory, \<open>disk\<close> the
  content of the file (\<open>None\<close> when there is none), \<open>requests\<close> the geocoding requests
  issued so far, each with the name it was issued for, and \<open>logged\<close> the errors printed by
  \<open>console.error\<close>. The pause \<open>delay(1100)\<close> is real time and is not part of the state;
  a failure of the file system in \<open>writeFile\<close> is not modelled.
\<close>

record run =
  output_store :: store
  disk :: "store option"
  requests :: "(string \<times> request) list"
  logged :: "error list"

text \<open>
  The test \<open>output.stops[name] || output.unmatched.includes(name)\<close>. The lookup in the plain
  object \<open>output.stops\<close> also finds the members of \<open>Object.prototype\<close>.
\<close>

definition classified :: "store \<Rightarrow> string \<Rightarrow> bool" where
  "classified out name \<longleftrightarrow> get_prop (stops out) name \<noteq> None \<or> name \<in> set (unmatched out)"

definition push_unmatched :: "string \<Rightarrow> store \<Rightarrow> store" where
  "push_unmatched name out = out\<lparr>unmatched := unmatched out @ [name]\<rparr>"

text \<open>
  One iteration of the loop \<open>for (const name of stops)\<close>. \<open>net n\<close> is the answer of the
  service to the \<open>n\<close>-th request of the run. The two \<open>continue\<close> statements leave the
  iteration before the file is written.
\<close>

definition step ::
  "(string \<Rightarrow> jsnum) \<Rightarrow> (nat \<Rightarrow> request \<Rightarrow> fetch_result) \<Rightarrow> run \<Rightarrow> string \<Rightarrow> run" where
  "step num net r name =
     (if classified (output_store r) name then r
      else case guessQuery name of
        None \<Rightarrow> r\<lparr>output_store := push_unmatched name (output_store r)\<rparr>
      | Some qry \<Rightarrow>
          (let reqs = requests r @ [(name, mkRequest qry)];
               res = geocode num (net (length (requests r))) name qry;
               out = (case res of
                        Inr None \<Rightarrow> push_unmatched name (output_store r)
                      | Inr (Some e) \<Rightarrow> (output_store r)\<lparr>stops := (stops (output_store r))(name \<mapsto> e)\<rparr>
                      | Inl err \<Rightarrow> push_unmatched name (output_store r));
               lg = (case res of Inl err \<Rightarrow> logged r @ [err] | Inr _ \<Rightarrow> logged r)
           in \<lparr>output_store = out, disk = Some out, requests = reqs, logged = lg\<rparr>))"

fun mainLoop ::
  "(string \<Rightarrow> jsnum) \<Rightarrow> (nat \<Rightarrow> request \<Rightarrow> fetch_result) \<Rightarrow> run \<Rightarrow> string list \<Rightarrow> run" where
  "mainLoop num net r [] = r"
| "mainLoop num net r (name # names) = mainLoop num net (step num net r name) names"

text \<open>
  \<open>file\<close> is the parsed content of \<open>stopCoords.json\<close>, \<open>None\<close> when it cannot be read
  or parsed: then \<open>existing\<close> keeps its default. \<open>now\<close> is the time stamp
  \<open>new Date().toISOString()\<close>; \<open>names\<close> is the sorted list of stop names that
  \<open>readCsvStops\<close> returns. After the loop the file is written once more.
\<close>

definition readExisting :: "store option \<Rightarrow> store" where
  "readExisting file =
     (case file of
        None \<Rightarrow> \<lparr>generatedAt = None, stops = Map.empty, unmatched = []\<rparr>
      | Some e \<Rightarrow> e)"

definition initial :: "string \<Rightarrow> store option \<Rightarrow> run" where
  "initial now file =
     (let existing = readExisting file
      in \<lparr>output_store = \<lparr>generatedAt = Some now, stops = stops existing,
                            unmatched = unmatched existing\<rparr>,
          disk = file, requests = [], logged = []\<rparr>)"

definition main ::
  "(string \<Rightarrow> jsnum) \<Rightarrow> (nat \<Rightarrow> request \<Rightarrow> fetch_result) \<Rightarrow> string \<Rightarrow> store option \<Rightarrow>
   string list \<Rightarrow> run" where
  "main num net now file names =
     (let r = mainLoop num net (initial now file) names
      in r\<lparr>disk := Some (output_store r)\<rparr>)"

subsection \<open>Predicates on stores and runs\<close>

text \<open>No name of \<open>unmatched\<close> is a key of \<open>stops\<close>.\<close>

definition disjoint_store :: "store \<Rightarrow> bool" where
  "disjoint_store s \<longleftrightarrow> (\<forall>n \<in> set (unmatched s). stops s n = None)"

text \<open>
  What the file holds, read as \<open>main\<close> reads it, and the names that are in \<open>unmatched\<close> in
  memory beyond those of the file.
\<close>

definition disk_store :: "run \<Rightarrow> store" where
  "disk_store r = readExisting (disk r)"

definition unwritten :: "run \<Rightarrow> string list" where
  "unwritten r = drop (length (unmatched (disk_store r))) (unmatched (output_store r))"

text \<open>
  The ways a lookup fails: the request errors, the status is not a success, the answer has no
  match, or its body is not JSON.
\<close>

fun lookup_fails :: "fetch_result \<Rightarrow> bool" where
  "lookup_fails NetworkError = True"
| "lookup_fails (Response ok status b) = (\<not> ok \<or> b = Results [] \<or> b = BadJson)"

text \<open>
  The store in memory and the file agree up to names without a query that were appended to
  \<open>unmatched\<close> since the last write.
\<close>

definition synced :: "run \<Rightarrow> bool" where
  "synced r \<longleftrightarrow> stops (output_store r) = stops (disk_store r) \<and>
     prefix (unmatched (disk_store r)) (unmatched (output_store r)) \<and>
     (\<forall>n \<in> set (unwritten r). guessQuery n = None)"

text \<open>An entry used in the examples below.\<close>

definition e0 :: entry where
  "e0 = \<lparr>lat = Num (5237 / 100), lng = Num (489 / 100), label = ''Dam, Amsterdam'',
          query = Val ''Dam, Amsterdam, Netherlands''\<rparr>"

section \<open>The trip aggregator: the \<open>App\<close> component\<close>

subsection \<open>Strings\<close>

text \<open>
  Strings are lists of bytes. \<open>toLowerCase\<close> maps the ASCII capitals to small letters and
  \<open>trim\<close> strips the ASCII white space (space, tab, line feed, vertical tab, form feed,
  carriage return) from both ends; letters and spaces beyond ASCII are left as they are.
  \<open>s.includes(q)\<close> is \<open>sublist q s\<close>.
\<close>

definition lower_char :: "char \<Rightarrow> char" where
  "lower_char c =
     (case map_of (zip ''ABCDEFGHIJKLMNOPQRSTUVWXYZ'' ''abcdefghijklmnopqrstuvwxyz'') c of
        Some d \<Rightarrow> d
      | None \<Rightarrow> c)"

definition toLowerCase :: "string \<Rightarrow> string" where
  "toLowerCase s = map lower_char s"

definition is_space :: "char \<Rightarrow> bool" where
  "is_space c \<longleftrightarrow> c \<in> set [CHR '' '', CHR 0x09, CHR 0x0A, CHR 0x0B, CHR 0x0C, CHR 0x0D]"

definition trim :: "string \<Rightarrow> string" where
  "trim s = rev (dropWhile is_space (rev (dropWhile is_space s)))"



subsection \<open>Dates\<close>

text \<open>
  A \<open>Date\<close> object holds a time value, the milliseconds since the epoch, or is invalid
  (its time value is \<open>NaN\<close>). Relational operators compare the time values, and a comparison
  with \<open>NaN\<close> is false.
\<close>

datatype jsdate = InvalidDate | Date int

fun date_lt :: "jsdate \<Rightarrow> jsdate \<Rightarrow> bool" where
  "date_lt (Date a) (Date b) = (a < b)"
| "date_lt _ _ = False"

definition date_gt :: "jsdate \<Rightarrow> jsdate \<Rightarrow> bool" where
  "date_gt a b = date_lt b a"












subsection \<open>Trips\<close>


record trip =
  trip_id :: string
  date :: jsdate
  dateLabel :: "string option"
  checkIn :: "string option"
  checkOut :: "string option"
  trip_from :: string
  trip_to :: string
  transactie :: "string option"
  product :: "string option"
  fare_class :: "string option"
  trip_note :: string





subsection \<open>\<open>filteredTrips\<close>\<close>

text \<open>
  The state of the filters that \<open>filteredTrips\<close> reads. \<open>selectedProducts\<close> is a \<open>Set\<close> of
  product names; \<open>dateStart\<close> and \<open>dateEnd\<close> are \<open>null\<close> until they are set.
\<close>

record filters =
  search :: string
  includeNonTrips :: bool
  selectedProducts :: "string set"
  dateStart :: "jsdate option"
  dateEnd :: "jsdate option"

definition has_product :: "string set \<Rightarrow> string option \<Rightarrow> bool" where
  "has_product S p = (case p of None \<Rightarrow> False | Some x \<Rightarrow> x \<in> S)"

text \<open>The callback of \<open>trips.filter\<close>, one early \<open>return false\<close> after the other.\<close>

definition keepTrip :: "filters \<Rightarrow> trip \<Rightarrow> bool" where
  "keepTrip f t =
     (let qry = toLowerCase (trim (search f))
      in if \<not> includeNonTrips f \<and> transactie t \<noteq> Some ''Reis'' then False
         else if selectedProducts f = {} then False
         else if \<not> has_product (selectedProducts f) (product t) then False
         else if (case dateStart f of None \<Rightarrow> False | Some s \<Rightarrow> date_lt (date t) s) then False
         else if (case dateEnd f of None \<Rightarrow> False | Some e \<Rightarrow> date_gt (date t) e) then False
         else if qry \<noteq> [] then
           (if \<not> sublist qry (toLowerCase (trip_from t @ '' '' @ trip_to t)) then False else True)
         else True)"

definition filteredTrips :: "filters \<Rightarrow> trip list \<Rightarrow> trip list" where
  "filteredTrips f ts = filter (keepTrip f) ts"

subsection \<open>\<open>analytics\<close>\<close>

text \<open>
  A \<open>Map\<close> keeps its keys in the order of their first insertion: it is an association list,
  \<open>get\<close> is \<open>map_of\<close> and \<open>set\<close> is \<open>AList.update\<close>, which replaces the value of a present key
  in place and appends a new key. The coordinate map \<open>coords\<close> is the object \<open>stops\<close> of the
  store that the resolver writes, a plain object: \<open>coords[name]\<close> is \<open>get_prop coords name\<close>.
  The rows are indexed by the fixed column names only, none of which names a member of
  \<open>Object.prototype\<close>.
\<close>

record route =
  route_from :: string
  route_to :: string
  fromCoord :: "entry jsval"
  toCoord :: "entry jsval"
  count :: nat
  products :: "(string option \<times> nat) list"
  dates :: "jsdate list"

record acc =
  routeMap :: "(string \<times> route) list"
  stopMap :: "(string \<times> nat) list"
  productMap :: "(string option \<times> nat) list"
  missing :: "string set"

definition get_or_0 :: "('k \<times> nat) list \<Rightarrow> 'k \<Rightarrow> nat" where
  "get_or_0 m k = (case map_of m k of None \<Rightarrow> 0 | Some c \<Rightarrow> c)"

definition bump :: "'k \<Rightarrow> ('k \<times> nat) list \<Rightarrow> ('k \<times> nat) list" where
  "bump k m = AList.update k (get_or_0 m k + 1) m"

definition routeKey :: "string \<Rightarrow> string \<Rightarrow> string" where
  "routeKey a b = a @ '' -> '' @ b"

definition addRoute ::
  "(string \<times> route) list \<Rightarrow> trip \<Rightarrow> entry jsval \<Rightarrow> entry jsval \<Rightarrow> (string \<times> route) list" where
  "addRoute rm t fc tc =
     (let k = routeKey (trip_from t) (trip_to t);
          r = (case map_of rm k of
                 Some r \<Rightarrow> r
               | None \<Rightarrow> \<lparr>route_from = trip_from t, route_to = trip_to t, fromCoord = fc,
                           toCoord = tc, count = 0, products = [], dates = []\<rparr>)
      in AList.update k
           (r\<lparr>count := count r + 1, products := bump (product t) (products r),
              dates := dates r @ [date t]\<rparr>) rm)"

text \<open>The callback of \<open>filteredTrips.forEach\<close>.\<close>

definition addTrip :: "(string \<rightharpoonup> entry) \<Rightarrow> acc \<Rightarrow> trip \<Rightarrow> acc" where
  "addTrip coords a t =
     (let a1 = a\<lparr>productMap := bump (product t) (productMap a)\<rparr>
      in if transactie t \<noteq> Some ''Reis'' then a1
         else if trip_from t = [] \<or> trip_to t = [] then a1
         else
           (let a2 = (if get_prop coords (trip_from t) = None
                      then a1\<lparr>missing := insert (trip_from t) (missing a1)\<rparr> else a1);
                a3 = (if get_prop coords (trip_to t) = None
                      then a2\<lparr>missing := insert (trip_to t) (missing a2)\<rparr> else a2)
            in case (get_prop coords (trip_from t), get_prop coords (trip_to t)) of
                 (Some fc, Some tc) \<Rightarrow>
                   a3\<lparr>routeMap := addRoute (routeMap a3) t fc tc,
                      stopMap := bump (trip_to t) (bump (trip_from t) (stopMap a3))\<rparr>
               | _ \<Rightarrow> a3))"

record stop_agg =
  stop_name :: string
  stop_count :: nat
  stop_coord :: "entry jsval option"

record product_agg =
  product_name :: "string option"
  product_count :: nat

text \<open>
  The result of \<open>analytics\<close>. \<open>sort((a, b) => b.count - a.count)\<close> is a stable sort by
  descending count. \<open>a_missing\<close> is a set: the order of the array, which \<open>localeCompare\<close>
  gives, is not modelled.
\<close>

record analytics_result =
  a_routes :: "route list"
  a_stops :: "stop_agg list"
  a_products :: "product_agg list"
  a_missing :: "string set"

definition by_count_desc :: "('a \<Rightarrow> nat) \<Rightarrow> 'a list \<Rightarrow> 'a list" where
  "by_count_desc c xs = sort_key (\<lambda>x. - int (c x)) xs"

definition empty_acc :: acc where
  "empty_acc = \<lparr>routeMap = [], stopMap = [], productMap = [], missing = {}\<rparr>"

definition analytics :: "(string \<rightharpoonup> entry) \<Rightarrow> trip list \<Rightarrow> analytics_result" where
  "analytics coords filtered =
     (let a = foldl (addTrip coords) empty_acc filtered
      in \<lparr>a_routes = by_count_desc count (map snd (routeMap a)),
          a_stops = by_count_desc stop_count
            (map (\<lambda>(name, c). \<lparr>stop_name = name, stop_count = c, stop_coord = get_prop coords name\<rparr>)
               (stopMap a)),
          a_products = by_count_desc product_count
            (map (\<lambda>(name, c). \<lparr>product_name = name, product_count = c\<rparr>) (productMap a)),
          a_missing = missing a\<rparr>)"

subsection \<open>Values used in the examples\<close>

text \<open>A journey, a filter state and coordinate maps.\<close>

definition trip0 :: trip where
  "trip0 = \<lparr>trip_id = ''01-05-2024-08:00-0'', date = Date 1714521600000, dateLabel = Some ''01-05-2024'',
     checkIn = Some ''08:00'', checkOut = Some ''08:20'', trip_from = ''X'', trip_to = ''Ya'',
     transactie = Some ''Reis'', product = Some ''Treinreizen'', fare_class = Some ''2'', trip_note = []\<rparr>"

definition filters0 :: filters where
  "filters0 = \<lparr>search = ''ya '', includeNonTrips = False, selectedProducts = {''Treinreizen''},
     dateStart = Some (Date 1714521600000), dateEnd = Some (Date 1714521600000)\<rparr>"

definition journey :: "string \<Rightarrow> string \<Rightarrow> trip" where
  "journey a b = trip0\<lparr>trip_from := a, trip_to := b\<rparr>"

definition filters_all :: filters where
  "filters_all = \<lparr>search = [], includeNonTrips = False, selectedProducts = {''Treinreizen''},
     dateStart = None, dateEnd = None\<rparr>"

definition coords0 :: "string \<rightharpoonup> entry" where
  "coords0 = [''Dam'' \<mapsto> e0]"

definition coordsX :: "string \<rightharpoonup> entry" where
  "coordsX = [''x'' \<mapsto> e0, ''x -> x'' \<mapsto> e0]"



subsection \<open>Route maps seen through their keys, names and counts\<close>

text \<open>
  The keys of a route map with the names and the count of each aggregate, and the shape of
  that list after \<open>n\<close> journeys from \<open>A\<close> to \<open>B\<close> and \<open>m\<close> journeys from \<open>B\<close> to \<open>A\<close>.
\<close>

definition summary :: "(string \<times> route) list \<Rightarrow> (string \<times> string \<times> string \<times> nat) list" where
  "summary rm = map (\<lambda>(k, r). (k, route_from r, route_to r, count r)) rm"

definition two_way :: "string \<Rightarrow> string \<Rightarrow> nat \<Rightarrow> nat \<Rightarrow> (string \<times> string \<times> string \<times> nat) list \<Rightarrow> bool" where
  "two_way A B n m S \<longleftrightarrow>
     (let ab = (routeKey A B, A, B, n); ba = (routeKey B A, B, A, m)
      in if n = 0 \<and> m = 0 then S = []
         else if m = 0 then S = [ab]
         else if n = 0 then S = [ba]
         else S = [ab, ba] \<or> S = [ba, ab])"

subsection \<open>The calendar, to state how dates roll over\<close>







section \<open>Properties of the resolver\<close>

subsection \<open>Lookups in plain objects\<close>

lemma get_prop_None_iff:
  "get_prop obj name = None \<longleftrightarrow> obj name = None \<and> name \<notin> set objectPrototypeMembers"
  by (simp add: get_prop_def split: option.splits)

lemma get_prop_own: "obj name = Some x \<Longrightarrow> get_prop obj name = Some (Val x)"
  by (simp add: get_prop_def)

lemma get_prop_upd_other: "n \<noteq> name \<Longrightarrow> get_prop (obj(name \<mapsto> x)) n = get_prop obj n"
  by (simp add: get_prop_def)

lemma get_prop_upd_same: "get_prop (obj(name \<mapsto> x)) name = Some (Val x)"
  by (simp add: get_prop_def)

lemma sentinels_not_members:
  "[] \<notin> set objectPrototypeMembers" "''Onbekend'' \<notin> set objectPrototypeMembers"
  by (simp_all add: objectPrototypeMembers_def)

subsection \<open>One iteration and the loop\<close>

lemma step_classified: "classified (output_store r) name \<Longrightarrow> step num net r name = r"
  by (simp add: step_def)

lemma step_no_query:
  "\<not> classified (output_store r) name \<Longrightarrow> guessQuery name = None \<Longrightarrow>
   step num net r name = r\<lparr>output_store := push_unmatched name (output_store r)\<rparr>"
  by (simp add: step_def)

lemma step_attempt:
  "\<not> classified (output_store r) name \<Longrightarrow> guessQuery name = Some qry \<Longrightarrow>
   step num net r name =
     (let out = (case geocode num (net (length (requests r))) name qry of
                   Inr (Some e) \<Rightarrow> (output_store r)\<lparr>stops := (stops (output_store r))(name \<mapsto> e)\<rparr>
                 | _ \<Rightarrow> push_unmatched name (output_store r))
      in \<lparr>output_store = out, disk = Some out, requests = requests r @ [(name, mkRequest qry)],
          logged = (case geocode num (net (length (requests r))) name qry of
                      Inl err \<Rightarrow> logged r @ [err] | Inr _ \<Rightarrow> logged r)\<rparr>)"
  by (simp add: step_def Let_def split: sum.splits option.splits)

lemma step_output_cases:
  "output_store (step num net r name) = output_store r \<and> classified (output_store r) name \<or>
   \<not> classified (output_store r) name \<and>
     (output_store (step num net r name) = push_unmatched name (output_store r) \<or>
      (\<exists>e. output_store (step num net r name) = (output_store r)\<lparr>stops := (stops (output_store r))(name \<mapsto> e)\<rparr>))"
  by (auto simp: step_def Let_def split: sum.splits option.splits)

lemma step_disjoint:
  "disjoint_store (output_store r) \<Longrightarrow> disjoint_store (output_store (step num net r name))"
  using step_output_cases[of num net r name]
  by (auto simp: disjoint_store_def classified_def get_prop_None_iff push_unmatched_def)

lemma mainLoop_disjoint:
  "disjoint_store (output_store r) \<Longrightarrow> disjoint_store (output_store (mainLoop num net r names))"
  by (induction names arbitrary: r) (auto simp: step_disjoint)

lemma guessQuery_None: "guessQuery name = None \<longleftrightarrow> name = [] \<or> name = ''Onbekend''"
  by (auto simp: guessQuery_def split: option.splits)

lemmas guess_eval = guessQuery_def get_prop_def objectPrototypeMembers_def overrides_def
  allCityPrefixes_def denHaagStops_def rotterdamStops_def purmerendStops_def zandvoortStops_def

lemma guess_Onbekend: "guessQuery ''Onbekend'' = None"
  by (simp add: guessQuery_def)

lemma guess_Dam: "guessQuery ''Dam'' = Some (Val ''Dam, Amsterdam, Netherlands'')"
  by (simp add: guess_eval)

lemma guess_Weena: "guessQuery ''Weena'' = Some (Val ''Weena, Rotterdam, Netherlands'')"
  by (simp add: guess_eval)

lemma step_unmatched_mono: "set (unmatched (output_store r)) \<subseteq> set (unmatched (output_store (step num net r name)))"
  using step_output_cases[of num net r name] by (auto simp: push_unmatched_def)

lemma step_stops_mono: "stops (output_store r) n \<noteq> None \<Longrightarrow> stops (output_store (step num net r name)) n \<noteq> None"
  using step_output_cases[of num net r name] by (auto simp: push_unmatched_def)

lemma step_classified_mono:
  "classified (output_store r) n \<Longrightarrow> classified (output_store (step num net r name)) n"
  using step_unmatched_mono[of r num net name] step_stops_mono[of r n num net name]
  by (auto simp: classified_def get_prop_None_iff)

lemma step_classifies: "classified (output_store (step num net r name)) name"
  using step_output_cases[of num net r name] by (auto simp: push_unmatched_def classified_def get_prop_None_iff)

lemma mainLoop_classified_mono:
  "classified (output_store r) n \<Longrightarrow> classified (output_store (mainLoop num net r names)) n"
  by (induction names arbitrary: r) (auto simp: step_classified_mono)

lemma mainLoop_classifies:
  "n \<in> set names \<Longrightarrow> classified (output_store (mainLoop num net r names)) n"
  by (induction names arbitrary: r) (auto simp: step_classifies mainLoop_classified_mono)

lemma mainLoop_unmatched_mono:
  "n \<in> set (unmatched (output_store r)) \<Longrightarrow> n \<in> set (unmatched (output_store (mainLoop num net r names)))"
  by (induction names arbitrary: r) (auto dest: subsetD[OF step_unmatched_mono])

lemma mainLoop_all_classified:
  "\<forall>n \<in> set names. classified (output_store r) n \<Longrightarrow> mainLoop num net r names = r"
  by (induction names arbitrary: r) (auto simp: step_classified)

lemma step_stops_no_query:
  "guessQuery n = None \<Longrightarrow> stops (output_store (step num net r name)) n = stops (output_store r) n"
  by (auto simp: step_def Let_def push_unmatched_def split: option.splits sum.splits)

lemma mainLoop_stops_no_query:
  "guessQuery n = None \<Longrightarrow> stops (output_store (mainLoop num net r names)) n = stops (output_store r) n"
  by (induction names arbitrary: r) (auto simp: step_stops_no_query)

lemma step_requests_no_query:
  "guessQuery n = None \<Longrightarrow> n \<notin> fst ` set (requests r) \<Longrightarrow> n \<notin> fst ` set (requests (step num net r name))"
  by (auto simp: step_def Let_def split: option.splits)

lemma mainLoop_requests_no_query:
  "guessQuery n = None \<Longrightarrow> n \<notin> fst ` set (requests r) \<Longrightarrow> n \<notin> fst ` set (requests (mainLoop num net r names))"
  by (induction names arbitrary: r) (auto simp: step_requests_no_query simp del: set_map)

lemma step_unmatched_no_query:
  "guessQuery n = None \<Longrightarrow>
   (n \<in> set (unmatched (output_store (step num net r name)))) =
   (n \<in> set (unmatched (output_store r)) \<or> name = n \<and> stops (output_store r) n = None)"
  using guessQuery_None[of n] sentinels_not_members
  by (auto simp: step_def Let_def push_unmatched_def classified_def get_prop_None_iff
      split: option.splits sum.splits)

lemma mainLoop_unmatched_no_query:
  "guessQuery n = None \<Longrightarrow>
   (n \<in> set (unmatched (output_store (mainLoop num net r names)))) =
   (n \<in> set (unmatched (output_store r)) \<or> n \<in> set names \<and> stops (output_store r) n = None)"
  by (induction names arbitrary: r) (auto simp: step_unmatched_no_query step_stops_no_query)

subsection \<open>The sentinel name\<close>

text \<open>
  Claim C5, as the code has it. For the name \<open>Onbekend\<close> no query is produced, no request is
  issued and no entry is ever stored under it in \<open>stops\<close>; the iteration does not write
  the file. The name is not skipped entirely: unless it is classified already, the
  iteration appends it to \<open>unmatched\<close>, so after a run it is in \<open>unmatched\<close> exactly when
  it was there before, or it is among the names of the run and was no key of \<open>stops\<close>.
\<close>

theorem sentinel_only_unmatched:
  "guessQuery ''Onbekend'' = None \<and>
   requests (step num net r ''Onbekend'') = requests r \<and>
   disk (step num net r ''Onbekend'') = disk r \<and>
   stops (output_store (step num net r ''Onbekend'')) = stops (output_store r) \<and>
   unmatched (output_store (step num net r ''Onbekend'')) =
     (if classified (output_store r) ''Onbekend'' then unmatched (output_store r)
      else unmatched (output_store r) @ [''Onbekend'']) \<and>
   ''Onbekend'' \<notin> fst ` set (requests (main num net now file names)) \<and>
   stops (output_store (main num net now file names)) ''Onbekend'' = stops (readExisting file) ''Onbekend'' \<and>
   (''Onbekend'' \<in> set (unmatched (output_store (main num net now file names)))) =
     (''Onbekend'' \<in> set (unmatched (readExisting file)) \<or>
      ''Onbekend'' \<in> set names \<and> stops (readExisting file) ''Onbekend'' = None)"
proof -
  have q: "guessQuery ''Onbekend'' = None" by (simp add: guessQuery_def)
  have s: "requests (step num net r ''Onbekend'') = requests r"
     "disk (step num net r ''Onbekend'') = disk r"
     "stops (output_store (step num net r ''Onbekend'')) = stops (output_store r)"
     "unmatched (output_store (step num net r ''Onbekend'')) =
     (if classified (output_store r) ''Onbekend'' then unmatched (output_store r)
      else unmatched (output_store r) @ [''Onbekend''])"
    by (simp_all add: step_def q push_unmatched_def)
  have i: "stops (output_store (initial now file)) = stops (readExisting file)"
     "unmatched (output_store (initial now file)) = unmatched (readExisting file)"
     "requests (initial now file) = []"
    by (simp_all add: initial_def Let_def)
  have m1: "''Onbekend'' \<notin> fst ` set (requests (main num net now file names))"
    using mainLoop_requests_no_query[OF q, of "initial now file" num net names]
    by (simp add: main_def Let_def i)
  have m2: "stops (output_store (main num net now file names)) ''Onbekend'' = stops (readExisting file) ''Onbekend''"
    using mainLoop_stops_no_query[OF q, of num net "initial now file" names]
    by (simp add: main_def Let_def i)
  have m3: "(''Onbekend'' \<in> set (unmatched (output_store (main num net now file names)))) =
     (''Onbekend'' \<in> set (unmatched (readExisting file)) \<or>
      ''Onbekend'' \<in> set names \<and> stops (readExisting file) ''Onbekend'' = None)"
    using mainLoop_unmatched_no_query[OF q, of num net "initial now file" names]
    by (simp add: main_def Let_def i)
  show ?thesis using q s m1 m2 m3 by blast
qed

theorem sentinel_only_unmatched_witness:
  "\<not> classified (output_store (initial ''2025-01-01'' None)) ''Onbekend'' \<and>
   unmatched (output_store (step (\<lambda>_. NaN) (\<lambda>_ _. NetworkError) (initial ''2025-01-01'' None) ''Onbekend'')) =
     [''Onbekend''] \<and>
   requests (step (\<lambda>_. NaN) (\<lambda>_ _. NetworkError) (initial ''2025-01-01'' None) ''Onbekend'') = [] \<and>
   disk (step (\<lambda>_. NaN) (\<lambda>_ _. NetworkError) (initial ''2025-01-01'' None) ''Onbekend'') = None"
proof -
  have h: "\<not> classified (output_store (initial ''2025-01-01'' None)) ''Onbekend''"
    by (simp add: classified_def get_prop_None_iff objectPrototypeMembers_def initial_def readExisting_def)
  show ?thesis
    using h sentinel_only_unmatched[of "\<lambda>_. NaN" "\<lambda>_ _. NetworkError" "initial ''2025-01-01'' None"
        "''2025-01-01''" None "[]"]
    by (simp add: initial_def readExisting_def)
qed

text \<open>
  Claim C5 as stated fails: a run on the single name \<open>Onbekend\<close>, with no file, ends with
  \<open>Onbekend\<close> in \<open>unmatched\<close>.
\<close>

theorem sentinel_is_pushed_to_unmatched:
  "''Onbekend'' \<in> set (unmatched (output_store
      (main (\<lambda>_. NaN) (\<lambda>_ _. NetworkError) ''2025-01-01T00:00:00.000Z'' None [''Onbekend''])))"
  by (simp add: main_def initial_def readExisting_def step_def classified_def get_prop_None_iff objectPrototypeMembers_def guessQuery_def push_unmatched_def)

subsection \<open>Names are in at most one of the two sets\<close>

lemma initial_fields:
  "stops (output_store (initial now file)) = stops (readExisting file)"
  "unmatched (output_store (initial now file)) = unmatched (readExisting file)"
  "generatedAt (output_store (initial now file)) = Some now"
  "requests (initial now file) = []"
  "logged (initial now file) = []"
  "disk (initial now file) = file"
  by (simp_all add: initial_def Let_def)

text \<open>
  Claim C4. A run that starts from no file, or from a store in which no name of \<open>unmatched\<close>
  is a key of \<open>stops\<close>, ends with such a store, in memory and in the file. An iteration
  skips a name that is already a key of \<open>stops\<close> or an element of \<open>unmatched\<close>; for any
  other name it either appends the name to \<open>unmatched\<close> or stores an entry under the name
  in \<open>stops\<close>, never both.
\<close>

theorem never_in_both_sets:
  assumes "disjoint_store (readExisting file)"
  shows "disjoint_store (output_store (main num net now file names)) \<and>
         disk (main num net now file names) = Some (output_store (main num net now file names)) \<and>
         (classified (output_store r) name \<longrightarrow> step num net r name = r) \<and>
         (\<not> classified (output_store r) name \<longrightarrow>
            output_store (step num net r name) = push_unmatched name (output_store r) \<or>
            (\<exists>e. output_store (step num net r name) =
                    (output_store r)\<lparr>stops := (stops (output_store r))(name \<mapsto> e)\<rparr>))"
proof -
  have "disjoint_store (output_store (initial now file))"
    using assms by (simp add: disjoint_store_def initial_fields)
  then have "disjoint_store (output_store (mainLoop num net (initial now file) names))"
    by (rule mainLoop_disjoint)
  then have a: "disjoint_store (output_store (main num net now file names))"
    by (simp add: main_def Let_def)
  have b: "disk (main num net now file names) = Some (output_store (main num net now file names))"
    by (simp add: main_def Let_def)
  show ?thesis
    using a b step_classified[of r name num net] step_output_cases[of num net r name] by blast
qed

theorem never_in_both_sets_witness:
  "disjoint_store (readExisting (Some \<lparr>generatedAt = None, stops = [''Dam'' \<mapsto> e0], unmatched = [''Onbekend'']\<rparr>)) \<and>
   disjoint_store (output_store (main (\<lambda>_. NaN) (\<lambda>_ _. Response True 200 (Results [])) ''2025-01-01''
      (Some \<lparr>generatedAt = None, stops = [''Dam'' \<mapsto> e0], unmatched = [''Onbekend'']\<rparr>)
      [''Dam'', ''Leidseplein'', ''Onbekend'']))"
proof -
  have h: "disjoint_store (readExisting (Some \<lparr>generatedAt = None, stops = [''Dam'' \<mapsto> e0], unmatched = [''Onbekend'']\<rparr>))"
    by (simp add: disjoint_store_def readExisting_def)
  show ?thesis using h never_in_both_sets[OF h] by blast
qed

subsection \<open>A run on classified names\<close>

text \<open>
  Claim C7. When every name of the input is a key of \<open>stops\<close> or an element of
  \<open>unmatched\<close> of the store read from the file, the run issues no request, leaves
  \<open>stops\<close> and \<open>unmatched\<close> as they were, and writes the store it read with a new
  \<open>generatedAt\<close> and no other change.
\<close>

theorem classified_rerun_changes_nothing:
  assumes "\<forall>n \<in> set names. classified e n"
  shows "requests (main num net now (Some e) names) = [] \<and>
         stops (output_store (main num net now (Some e) names)) = stops e \<and>
         unmatched (output_store (main num net now (Some e) names)) = unmatched e \<and>
         disk (main num net now (Some e) names) = Some (e\<lparr>generatedAt := Some now\<rparr>)"
proof -
  have c: "\<forall>n \<in> set names. classified (output_store (initial now (Some e))) n"
    using assms by (simp add: classified_def get_prop_None_iff objectPrototypeMembers_def initial_fields readExisting_def)
  have "mainLoop num net (initial now (Some e)) names = initial now (Some e)"
    using c by (rule mainLoop_all_classified)
  then show ?thesis
    by (simp add: main_def Let_def initial_def readExisting_def)
qed

theorem classified_rerun_changes_nothing_witness:
  "classified \<lparr>generatedAt = Some ''2024-12-31'', stops = [''Dam'' \<mapsto> e0], unmatched = [''Onbekend'']\<rparr> ''Dam'' \<and>
   classified \<lparr>generatedAt = Some ''2024-12-31'', stops = [''Dam'' \<mapsto> e0], unmatched = [''Onbekend'']\<rparr> ''Onbekend'' \<and>
   requests (main (\<lambda>_. NaN) (\<lambda>_ _. NetworkError) ''2025-01-01''
      (Some \<lparr>generatedAt = Some ''2024-12-31'', stops = [''Dam'' \<mapsto> e0], unmatched = [''Onbekend'']\<rparr>) [''Dam'', ''Onbekend'']) = [] \<and>
   disk (main (\<lambda>_. NaN) (\<lambda>_ _. NetworkError) ''2025-01-01''
      (Some \<lparr>generatedAt = Some ''2024-12-31'', stops = [''Dam'' \<mapsto> e0], unmatched = [''Onbekend'']\<rparr>) [''Dam'', ''Onbekend''])
     = Some \<lparr>generatedAt = Some ''2025-01-01'', stops = [''Dam'' \<mapsto> e0], unmatched = [''Onbekend'']\<rparr>"
proof -
  have h: "\<forall>n \<in> set [''Dam'', ''Onbekend'']. classified \<lparr>generatedAt = Some ''2024-12-31'', stops = [''Dam'' \<mapsto> e0], unmatched = [''Onbekend'']\<rparr> n"
    by (simp add: classified_def get_prop_None_iff)
  show ?thesis
    using h classified_rerun_changes_nothing[OF h, of "\<lambda>_. NaN" "\<lambda>_ _. NetworkError" "''2025-01-01''"]
    by simp
qed

subsection \<open>The fallback of \<open>guessQuery\<close>\<close>

text \<open>
  Claim C8, as the code has it. For a stop name that is not empty, not the sentinel
  \<open>Onbekend\<close> and not the name of a member of \<open>Object.prototype\<close>, that contains no comma,
  is no key of \<open>overrides\<close>, starts with none of the city prefixes and is in none of the
  four sets of stop names, the guessed query is the name followed by
  \<open>, Amsterdam, Netherlands\<close>. (For the name of a member of \<open>Object.prototype\<close> the lookup
  \<open>overrides[name]\<close> finds that member, and \<open>guessQuery\<close> returns it; the statement says
  nothing about these names.)
\<close>

theorem fallback_is_amsterdam:
  assumes "name \<noteq> []" and "name \<noteq> ''Onbekend''"
    and "name \<notin> set objectPrototypeMembers"
    and "CHR '','' \<notin> set name"
    and "map_of overrides name = None"
    and "\<not> list_ex (\<lambda>p. prefix p name) allCityPrefixes"
    and "name \<notin> set denHaagStops \<union> set rotterdamStops \<union> set purmerendStops \<union> set zandvoortStops"
  shows "guessQuery name = Some (Val (name @ '', Amsterdam, Netherlands'')) \<and>
         (\<exists>q. guessQuery name = Some (Val q) \<and> suffix '', Amsterdam, Netherlands'' q)"
  using assms by (simp add: guessQuery_def get_prop_def suffix_def)

text \<open>
  Claim C8 as stated fails at the sentinel: \<open>Onbekend\<close> has no comma, is no key of
  \<open>overrides\<close>, starts with no city prefix and is in none of the four sets, and
  \<open>guessQuery\<close> returns \<open>null\<close> for it.
\<close>

theorem sentinel_has_no_amsterdam_query:
  "CHR '','' \<notin> set ''Onbekend'' \<and> map_of overrides ''Onbekend'' = None \<and>
   \<not> list_ex (\<lambda>p. prefix p ''Onbekend'') allCityPrefixes \<and>
   ''Onbekend'' \<notin> set denHaagStops \<union> set rotterdamStops \<union> set purmerendStops \<union> set zandvoortStops \<and>
   guessQuery ''Onbekend'' = None \<and>
   \<not> (\<exists>q. guessQuery ''Onbekend'' = Some (Val q) \<and> suffix '', Amsterdam, Netherlands'' q)"
  by (simp add: guessQuery_def overrides_def allCityPrefixes_def denHaagStops_def rotterdamStops_def
     purmerendStops_def zandvoortStops_def)

theorem fallback_is_amsterdam_witness:
  "''Dam'' \<noteq> [] \<and> ''Dam'' \<noteq> ''Onbekend'' \<and> ''Dam'' \<notin> set objectPrototypeMembers \<and>
   CHR '','' \<notin> set ''Dam'' \<and> map_of overrides ''Dam'' = None \<and>
   \<not> list_ex (\<lambda>p. prefix p ''Dam'') allCityPrefixes \<and>
   ''Dam'' \<notin> set denHaagStops \<union> set rotterdamStops \<union> set purmerendStops \<union> set zandvoortStops \<and>
   guessQuery ''Dam'' = Some (Val ''Dam, Amsterdam, Netherlands'')"
proof -
  have h: "''Dam'' \<noteq> []" "''Dam'' \<noteq> ''Onbekend''" "''Dam'' \<notin> set objectPrototypeMembers"
    "CHR '','' \<notin> set ''Dam''"
    "map_of overrides ''Dam'' = None" "\<not> list_ex (\<lambda>p. prefix p ''Dam'') allCityPrefixes"
    "''Dam'' \<notin> set denHaagStops \<union> set rotterdamStops \<union> set purmerendStops \<union> set zandvoortStops"
    by (simp_all add: overrides_def allCityPrefixes_def denHaagStops_def rotterdamStops_def
     purmerendStops_def zandvoortStops_def objectPrototypeMembers_def)
  show ?thesis using h fallback_is_amsterdam[OF h] by simp
qed

text \<open>
  The name \<open>constructor\<close> meets every condition of the claim but the one on the members of
  \<open>Object.prototype\<close>: \<open>guessQuery\<close> returns that member, not a string.
\<close>

lemma guessQuery_inherited_member:
  "CHR '','' \<notin> set ''constructor'' \<and> map_of overrides ''constructor'' = None \<and>
   \<not> list_ex (\<lambda>p. prefix p ''constructor'') allCityPrefixes \<and>
   ''constructor'' \<notin> set denHaagStops \<union> set rotterdamStops \<union> set purmerendStops \<union> set zandvoortStops \<and>
   guessQuery ''constructor'' = Some (Member ''constructor'')"
  by (simp add: guessQuery_def get_prop_def objectPrototypeMembers_def overrides_def
     allCityPrefixes_def denHaagStops_def rotterdamStops_def purmerendStops_def zandvoortStops_def)

subsection \<open>Failed lookups\<close>

lemma geocode_fails:
  "lookup_fails (fetch (mkRequest qry)) \<Longrightarrow>
   geocode num fetch name qry = Inr None \<or> (\<exists>err. geocode num fetch name qry = Inl err)"
  by (cases "fetch (mkRequest qry)") (auto simp: geocode_def split: body.splits list.splits)

lemma step_stops_classified:
  "classified (output_store r) n \<Longrightarrow> stops (output_store (step num net r name)) n = stops (output_store r) n"
  using step_output_cases[of num net r name] by (auto simp: push_unmatched_def)

lemma mainLoop_stops_classified:
  "classified (output_store r) n \<Longrightarrow> stops (output_store (mainLoop num net r names)) n = stops (output_store r) n"
  by (induction names arbitrary: r) (auto simp: step_stops_classified step_classified_mono)

text \<open>
  Claim C9. For a name that is not classified and has a query (every name but the empty
  one and the sentinel has one), when the lookup fails, because the request errors, the
  status is not a success or the answer has no result, the iteration appends the name to
  \<open>unmatched\<close> and writes the file, and the loop goes on with the remaining names: at the
  end the name is in \<open>unmatched\<close> and no key of \<open>stops\<close>, and every remaining name is
  classified. A name is classified here as the test of the loop has it; a name of a member
  of \<open>Object.prototype\<close> passes that test, so the iteration skips it and makes no lookup
  for it.
\<close>

theorem failed_lookup_is_unmatched:
  assumes "\<not> classified (output_store r) name"
    and "guessQuery name = Some qry"
    and "lookup_fails (net (length (requests r)) (mkRequest qry))"
  shows "output_store (step num net r name) = push_unmatched name (output_store r) \<and>
         disk (step num net r name) = Some (push_unmatched name (output_store r)) \<and>
         mainLoop num net r (name # rest) = mainLoop num net (step num net r name) rest \<and>
         name \<in> set (unmatched (output_store (mainLoop num net r (name # rest)))) \<and>
         stops (output_store (mainLoop num net r (name # rest))) name = None \<and>
         (\<forall>n \<in> set rest. classified (output_store (mainLoop num net r (name # rest))) n) \<and>
         ((guessQuery name = None) = (name = [] \<or> name = ''Onbekend'')) \<and>
         (n' \<in> set objectPrototypeMembers \<longrightarrow> step num net r' n' = r')"
proof -
  let ?r' = "step num net r name"
  have p: "n' \<in> set objectPrototypeMembers \<longrightarrow> step num net r' n' = r'"
    by (simp add: step_def classified_def get_prop_None_iff)
  have g: "geocode num (net (length (requests r))) name qry = Inr None \<or>
           (\<exists>err. geocode num (net (length (requests r))) name qry = Inl err)"
    using assms(3) by (rule geocode_fails)
  have o: "output_store ?r' = push_unmatched name (output_store r)"
    using g by (auto simp: step_attempt[OF assms(1,2)] Let_def)
  have d: "disk ?r' = Some (push_unmatched name (output_store r))"
    using g by (auto simp: step_attempt[OF assms(1,2)] Let_def)
  have u: "name \<in> set (unmatched (output_store ?r'))"
    by (simp add: o push_unmatched_def)
  have s: "stops (output_store ?r') name = None"
    using assms(1) by (simp add: o push_unmatched_def classified_def get_prop_None_iff)
  have c: "classified (output_store ?r') name" by (rule step_classifies)
  have f1: "name \<in> set (unmatched (output_store (mainLoop num net r (name # rest))))"
    using mainLoop_unmatched_mono[OF u] by simp
  have f2: "stops (output_store (mainLoop num net r (name # rest))) name = None"
    using mainLoop_stops_classified[OF c, of num net rest] s by simp
  have f3: "\<forall>n \<in> set rest. classified (output_store (mainLoop num net r (name # rest))) n"
    by (simp add: mainLoop_classifies)
  show ?thesis using o d f1 f2 f3 p guessQuery_None[of name] by simp
qed

theorem failed_lookup_is_unmatched_witness:
  "\<not> classified (output_store (initial ''2025-01-01'' None)) ''Dam'' \<and>
   guessQuery ''Dam'' = Some (Val ''Dam, Amsterdam, Netherlands'') \<and>
   lookup_fails ((\<lambda>_ _. Response False 503 BadJson) (length (requests (initial ''2025-01-01'' None)))
      (mkRequest (Val ''Dam, Amsterdam, Netherlands''))) \<and>
   ''Dam'' \<in> set (unmatched (output_store
      (mainLoop (\<lambda>_. NaN) (\<lambda>_ _. Response False 503 BadJson) (initial ''2025-01-01'' None) [''Dam'', ''Weena''])))"
proof -
  have h1: "\<not> classified (output_store (initial ''2025-01-01'' None)) ''Dam''"
    by (simp add: classified_def get_prop_None_iff objectPrototypeMembers_def initial_def readExisting_def)
  have h2: "guessQuery ''Dam'' = Some (Val ''Dam, Amsterdam, Netherlands'')"
    by (rule guess_Dam)
  have h3: "lookup_fails ((\<lambda>_ _. Response False 503 BadJson) (length (requests (initial ''2025-01-01'' None)))
      (mkRequest (Val ''Dam, Amsterdam, Netherlands'')))"
    by simp
  show ?thesis
    using h1 h2 h3 failed_lookup_is_unmatched[OF h1 h2 h3, of "\<lambda>_. NaN" "[''Weena'']"] by blast
qed

subsection \<open>Writes to the file\<close>

lemma step_attempt_disk:
  "\<not> classified (output_store r) name \<Longrightarrow> guessQuery name \<noteq> None \<Longrightarrow>
   disk (step num net r name) = Some (output_store (step num net r name)) \<and>
   requests (step num net r name) = requests r @ [(name, mkRequest (the (guessQuery name)))]"
  by (auto simp: step_def Let_def)

lemma synced_step: "synced r \<Longrightarrow> synced (step num net r name)"
proof (cases "classified (output_store r) name")
  case True
  assume "synced r"
  then show ?thesis using True by (simp add: step_classified)
next
  case False
  assume s: "synced r"
  show ?thesis
  proof (cases "guessQuery name")
    case None
    have st: "step num net r name = r\<lparr>output_store := push_unmatched name (output_store r)\<rparr>"
      using False None by (rule step_no_query)
    from s obtain zs where z: "unmatched (output_store r) = unmatched (disk_store r) @ zs"
      by (auto simp: synced_def prefix_def)
    show ?thesis
      using s None z by (auto simp: st synced_def unwritten_def disk_store_def push_unmatched_def)
  next
    case (Some qry)
    then have "disk (step num net r name) = Some (output_store (step num net r name))"
      using step_attempt_disk[OF False, of num net] by simp
    then show ?thesis
      by (simp add: synced_def unwritten_def disk_store_def readExisting_def)
  qed
qed

lemma synced_mainLoop: "synced r \<Longrightarrow> synced (mainLoop num net r names)"
  by (induction names arbitrary: r) (auto simp: synced_step)

lemma synced_initial: "synced (initial now file)"
  by (simp add: synced_def unwritten_def disk_store_def initial_def Let_def)

text \<open>
  Claim C6, as the code has it. An iteration that makes a lookup for a name (the name is
  not classified and has a query) ends, whatever the outcome, with the whole store written
  to the file. A name without a query is appended to \<open>unmatched\<close> in memory and the
  iteration ends without a write. So whenever the loop turns to the next name, \<open>stops\<close> in
  memory equals \<open>stops\<close> in the file, \<open>unmatched\<close> in memory is \<open>unmatched\<close> of the file
  followed by names that have no query, and the final write of \<open>main\<close> stores those too.
\<close>

theorem written_after_each_attempt:
  "(\<not> classified (output_store r) name \<and> guessQuery name \<noteq> None \<longrightarrow>
      disk (step num net r name) = Some (output_store (step num net r name))) \<and>
   stops (output_store (mainLoop num net (initial now file) pre)) =
     stops (disk_store (mainLoop num net (initial now file) pre)) \<and>
   unmatched (output_store (mainLoop num net (initial now file) pre)) =
     unmatched (disk_store (mainLoop num net (initial now file) pre)) @
     unwritten (mainLoop num net (initial now file) pre) \<and>
   (\<forall>n \<in> set (unwritten (mainLoop num net (initial now file) pre)). guessQuery n = None) \<and>
   disk (main num net now file names) = Some (output_store (main num net now file names))"
proof -
  have s: "synced (mainLoop num net (initial now file) pre)"
    using synced_initial by (rule synced_mainLoop)
  have a: "\<not> classified (output_store r) name \<and> guessQuery name \<noteq> None \<longrightarrow>
      disk (step num net r name) = Some (output_store (step num net r name))"
    using step_attempt_disk[of r name num net] by blast
  have u: "unmatched (output_store (mainLoop num net (initial now file) pre)) =
     unmatched (disk_store (mainLoop num net (initial now file) pre)) @
     unwritten (mainLoop num net (initial now file) pre)"
    using s by (auto simp: synced_def unwritten_def prefix_def)
  have m: "disk (main num net now file names) = Some (output_store (main num net now file names))"
    by (simp add: main_def Let_def)
  show ?thesis using s a u m by (simp add: synced_def)
qed

text \<open>
  Claim C6 as stated fails. Take a CSV whose stops are \<open>Onbekend\<close> and \<open>Weena\<close>, which
  \<open>readCsvStops\<close> returns in this order, and no file. After the first iteration the
  sentinel is in \<open>unmatched\<close> in memory and nothing has been written; the second iteration
  starts from this state and issues the request for \<open>Weena\<close>, the only request of the run.
\<close>

theorem sentinel_unwritten_when_next_name_runs:
  "unwritten (mainLoop (\<lambda>_. NaN) (\<lambda>_ _. NetworkError) (initial ''2025-01-01'' None) [''Onbekend'']) =
     [''Onbekend''] \<and>
   disk (mainLoop (\<lambda>_. NaN) (\<lambda>_ _. NetworkError) (initial ''2025-01-01'' None) [''Onbekend'']) = None \<and>
   requests (mainLoop (\<lambda>_. NaN) (\<lambda>_ _. NetworkError) (initial ''2025-01-01'' None) [''Onbekend'']) = [] \<and>
   requests (main (\<lambda>_. NaN) (\<lambda>_ _. NetworkError) ''2025-01-01'' None [''Onbekend'', ''Weena'']) =
     [(''Weena'', mkRequest (Val ''Weena, Rotterdam, Netherlands''))]"
  by (simp add: main_def unwritten_def disk_store_def initial_def readExisting_def step_def
      classified_def get_prop_None_iff objectPrototypeMembers_def push_unmatched_def
      guess_Onbekend guess_Weena Let_def geocode_def)

theorem written_after_each_attempt_witness:
  "\<not> classified (output_store (initial ''2025-01-01'' None)) ''Dam'' \<and> guessQuery ''Dam'' \<noteq> None \<and>
   disk (step (\<lambda>_. NaN) (\<lambda>_ _. NetworkError) (initial ''2025-01-01'' None) ''Dam'') =
     Some (output_store (step (\<lambda>_. NaN) (\<lambda>_ _. NetworkError) (initial ''2025-01-01'' None) ''Dam'')) \<and>
   unwritten (mainLoop (\<lambda>_. NaN) (\<lambda>_ _. NetworkError) (initial ''2025-01-01'' None) [''Dam'', ''Onbekend'']) =
     [''Onbekend''] \<and>
   guessQuery ''Onbekend'' = None"
proof -
  have h: "\<not> classified (output_store (initial ''2025-01-01'' None)) ''Dam'' \<and> guessQuery ''Dam'' \<noteq> None"
    by (simp add: classified_def get_prop_None_iff objectPrototypeMembers_def initial_def
        readExisting_def guess_Dam)
  have u: "unwritten (mainLoop (\<lambda>_. NaN) (\<lambda>_ _. NetworkError) (initial ''2025-01-01'' None) [''Dam'', ''Onbekend'']) =
     [''Onbekend'']"
    by (simp add: unwritten_def disk_store_def initial_def readExisting_def step_def classified_def
        get_prop_None_iff objectPrototypeMembers_def push_unmatched_def guess_Dam guess_Onbekend
        Let_def geocode_def)
  show ?thesis
    using h u written_after_each_attempt[of "initial ''2025-01-01'' None" "''Dam''" "\<lambda>_. NaN" "\<lambda>_ _. NetworkError"
        "''2025-01-01''" None "[''Dam'', ''Onbekend'']" "[]"]
    by (simp add: guess_Onbekend)
qed

section \<open>Properties of the aggregator\<close>

subsection \<open>Filtering\<close>

text \<open>
  Claim C1 as stated fails: the search text is trimmed before it is matched. With the
  search text \<open>ya\<close> followed by a space, a journey from \<open>X\<close> to \<open>Ya\<close> that passes every
  other condition is in the filtered list, though the lowercased search text is not a
  substring of \<open>x ya\<close>.
\<close>

theorem search_is_trimmed_first:
  "trip0 \<in> set (filteredTrips filters0 [trip0]) \<and>
   (transactie trip0 = Some ''Reis'' \<or> includeNonTrips filters0) \<and>
   selectedProducts filters0 \<noteq> {} \<and> has_product (selectedProducts filters0) (product trip0) \<and>
   dateStart filters0 = Some (date trip0) \<and> dateEnd filters0 = Some (date trip0) \<and>
   search filters0 \<noteq> [] \<and>
   \<not> sublist (toLowerCase (search filters0)) (toLowerCase (trip_from trip0 @ '' '' @ trip_to trip0))"
  by (simp add: filteredTrips_def keepTrip_def trip0_def filters0_def has_product_def date_gt_def
      toLowerCase_def lower_char_def trim_def is_space_def sublist_code)

text \<open>
  Claim C1, as the code has it. A trip is in the filtered list if and only if it is a trip
  of the list and: its transaction type is \<open>Reis\<close> or \<open>includeNonTrips\<close> is set; the set of
  selected products is not empty and contains its product; its date is not before
  \<open>dateStart\<close> and not after \<open>dateEnd\<close>, where a bound that is \<open>null\<close> excludes nothing,
  valid dates compare by their time values and an invalid date is neither before nor after
  any date; and, when the trimmed search text is not empty, the lowercased trimmed search
  text is a substring of the lowercased origin, a space and the destination. With an empty
  set of selected products the filtered list is empty, and so are the routes, stops,
  products and missing names of \<open>analytics\<close>.
\<close>

theorem filteredTrips_iff:
  "(t \<in> set (filteredTrips f ts) \<longleftrightarrow>
      t \<in> set ts \<and>
      (transactie t = Some ''Reis'' \<or> includeNonTrips f) \<and>
      selectedProducts f \<noteq> {} \<and> has_product (selectedProducts f) (product t) \<and>
      (\<forall>s. dateStart f = Some s \<longrightarrow> \<not> date_lt (date t) s) \<and>
      (\<forall>e. dateEnd f = Some e \<longrightarrow> \<not> date_gt (date t) e) \<and>
      (trim (search f) \<noteq> [] \<longrightarrow>
         sublist (toLowerCase (trim (search f))) (toLowerCase (trip_from t @ '' '' @ trip_to t)))) \<and>
   (date_lt (Date x) (Date s) \<longleftrightarrow> x < s) \<and> (date_gt (Date x) (Date e) \<longleftrightarrow> e < x) \<and>
   (selectedProducts f = {} \<longrightarrow>
      filteredTrips f ts = [] \<and>
      analytics coords (filteredTrips f ts) =
        \<lparr>a_routes = [], a_stops = [], a_products = [], a_missing = {}\<rparr>)"
proof -
  have l: "toLowerCase (trim (search f)) = [] \<longleftrightarrow> trim (search f) = []"
    by (simp add: toLowerCase_def)
  have a: "keepTrip f t \<longleftrightarrow>
      (transactie t = Some ''Reis'' \<or> includeNonTrips f) \<and>
      selectedProducts f \<noteq> {} \<and> has_product (selectedProducts f) (product t) \<and>
      (\<forall>s. dateStart f = Some s \<longrightarrow> \<not> date_lt (date t) s) \<and>
      (\<forall>e. dateEnd f = Some e \<longrightarrow> \<not> date_gt (date t) e) \<and>
      (trim (search f) \<noteq> [] \<longrightarrow>
         sublist (toLowerCase (trim (search f))) (toLowerCase (trip_from t @ '' '' @ trip_to t)))"
    unfolding keepTrip_def Let_def l by (cases "dateStart f"; cases "dateEnd f") auto
  have e: "selectedProducts f = {} \<Longrightarrow> filteredTrips f ts = []"
    by (simp add: filteredTrips_def keepTrip_def Let_def)
  have z: "analytics coords [] = \<lparr>a_routes = [], a_stops = [], a_products = [], a_missing = {}\<rparr>"
    by (simp add: analytics_def empty_acc_def by_count_desc_def)
  show ?thesis using a e z by (simp add: filteredTrips_def date_gt_def)
qed

theorem filteredTrips_iff_witness:
  "journey ''Dam'' ''Weesp'' \<in>
     set (filteredTrips (filters0\<lparr>search := '' WEES ''\<rparr>) [journey ''Dam'' ''Weesp''])"
  using filteredTrips_iff[of "journey ''Dam'' ''Weesp''" "filters0\<lparr>search := '' WEES ''\<rparr>"
      "[journey ''Dam'' ''Weesp'']"]
  by (simp add: journey_def trip0_def filters0_def has_product_def date_gt_def
      toLowerCase_def lower_char_def trim_def is_space_def sublist_code)

subsection \<open>Trips with an endpoint that has no coordinates\<close>

lemma addTrip_unresolved:
  assumes "transactie t = Some ''Reis''" "trip_from t \<noteq> []" "trip_to t \<noteq> []"
    and "get_prop coords (trip_from t) = None \<or> get_prop coords (trip_to t) = None"
  shows "routeMap (addTrip coords a t) = routeMap a"
    and "stopMap (addTrip coords a t) = stopMap a"
    and "productMap (addTrip coords a t) = bump (product t) (productMap a)"
    and "missing (addTrip coords a t) =
           missing a \<union> (if get_prop coords (trip_from t) = None then {trip_from t} else {}) \<union>
           (if get_prop coords (trip_to t) = None then {trip_to t} else {})"
  using assms by (auto simp: addTrip_def Let_def split: option.splits)

lemma addTrip_maps_cong:
  assumes "routeMap a = routeMap b" "stopMap a = stopMap b"
  shows "routeMap (addTrip coords a t) = routeMap (addTrip coords b t) \<and>
         stopMap (addTrip coords a t) = stopMap (addTrip coords b t)"
  using assms by (auto simp: addTrip_def Let_def split: option.splits)

lemma foldl_addTrip_maps_cong:
  "routeMap a = routeMap b \<Longrightarrow> stopMap a = stopMap b \<Longrightarrow>
   routeMap (foldl (addTrip coords) a ts) = routeMap (foldl (addTrip coords) b ts) \<and>
   stopMap (foldl (addTrip coords) a ts) = stopMap (foldl (addTrip coords) b ts)"
proof (induction ts arbitrary: a b)
  case Nil
  then show ?case by simp
next
  case (Cons t ts)
  have "routeMap (addTrip coords a t) = routeMap (addTrip coords b t)"
       "stopMap (addTrip coords a t) = stopMap (addTrip coords b t)"
    using addTrip_maps_cong[OF Cons.prems] by simp_all
  then show ?case
    using Cons.IH[of "addTrip coords a t" "addTrip coords b t"] by simp
qed

lemma addTrip_missing_mono: "missing a \<subseteq> missing (addTrip coords a t)"
  by (auto simp: addTrip_def Let_def split: option.splits)

lemma foldl_addTrip_missing_mono: "x \<in> missing a \<Longrightarrow> x \<in> missing (foldl (addTrip coords) a ts)"
proof (induction ts arbitrary: a)
  case Nil
  then show ?case by simp
next
  case (Cons t ts)
  have "x \<in> missing (addTrip coords a t)"
    using Cons.prems addTrip_missing_mono[of a coords t] by blast
  then show ?case using Cons.IH by simp
qed

lemma keep_journey: "keepTrip filters_all (journey a b)"
  by (simp add: keepTrip_def filters_all_def journey_def trip0_def has_product_def toLowerCase_def trim_def)

text \<open>
  Claim C2 at the stop name \<open>constructor\<close>. The coordinate map has an entry for \<open>Dam\<close> only,
  and a journey from \<open>constructor\<close> to \<open>Dam\<close> is in the filtered list. The lookup
  \<open>coords[trip.from]\<close> finds the member of \<open>Object.prototype\<close>, which is truthy: the name
  is not added to the missing names, and the trip builds a route aggregate and increments
  the stop aggregates of both endpoints.
\<close>

theorem inherited_member_passes_for_coordinate:
  "coords0 ''constructor'' = None \<and>
   transactie (journey ''constructor'' ''Dam'') = Some ''Reis'' \<and>
   filteredTrips filters_all [journey ''constructor'' ''Dam''] = [journey ''constructor'' ''Dam''] \<and>
   a_missing (analytics coords0 (filteredTrips filters_all [journey ''constructor'' ''Dam''])) = {} \<and>
   map (\<lambda>r. (route_from r, route_to r, fromCoord r, count r))
     (a_routes (analytics coords0 (filteredTrips filters_all [journey ''constructor'' ''Dam'']))) =
     [(''constructor'', ''Dam'', Member ''constructor'', 1)] \<and>
   map (\<lambda>s. (stop_name s, stop_count s))
     (a_stops (analytics coords0 (filteredTrips filters_all [journey ''constructor'' ''Dam'']))) =
     [(''constructor'', 1), (''Dam'', 1)]"
proof -
  have f: "filteredTrips filters_all [journey ''constructor'' ''Dam''] = [journey ''constructor'' ''Dam'']"
    by (simp add: filteredTrips_def keep_journey)
  have a: "foldl (addTrip coords0) empty_acc [journey ''constructor'' ''Dam''] =
     \<lparr>routeMap = [(''constructor -> Dam'',
         \<lparr>route_from = ''constructor'', route_to = ''Dam'', fromCoord = Member ''constructor'',
            toCoord = Val e0, count = 1, products = [(Some ''Treinreizen'', 1)],
            dates = [Date 1714521600000]\<rparr>)],
       stopMap = [(''constructor'', 1), (''Dam'', 1)],
       productMap = [(Some ''Treinreizen'', 1)], missing = {}\<rparr>"
    by (simp add: addTrip_def addRoute_def bump_def get_or_0_def routeKey_def empty_acc_def
        journey_def trip0_def coords0_def get_prop_def objectPrototypeMembers_def Let_def)
  show ?thesis
    unfolding f analytics_def a Let_def
    by (simp add: by_count_desc_def coords0_def journey_def trip0_def)
qed

text \<open>
  For endpoints that \<open>coords[name]\<close> does not find, neither as an entry nor as a member of
  \<open>Object.prototype\<close>, the claim holds. Let \<open>t\<close> be a trip of the filtered list whose
  transaction type is \<open>Reis\<close> and whose origin and destination are not empty, and let the
  lookup find nothing for one of the two names. Then each name it finds nothing for is in the
  set of missing names, the callback leaves the route map and the stop map as they are, and
  the routes and the stops of \<open>analytics\<close> are those of the list without \<open>t\<close>.
\<close>

lemma unresolved_endpoint_trip:
  assumes "filteredTrips f allTrips = xs @ t # ys"
    and "transactie t = Some ''Reis''" and "trip_from t \<noteq> []" and "trip_to t \<noteq> []"
    and "get_prop coords (trip_from t) = None \<or> get_prop coords (trip_to t) = None"
  shows "(get_prop coords (trip_from t) = None \<longrightarrow>
            trip_from t \<in> a_missing (analytics coords (filteredTrips f allTrips))) \<and>
         (get_prop coords (trip_to t) = None \<longrightarrow>
            trip_to t \<in> a_missing (analytics coords (filteredTrips f allTrips))) \<and>
         routeMap (addTrip coords a t) = routeMap a \<and>
         stopMap (addTrip coords a t) = stopMap a \<and>
         a_routes (analytics coords (filteredTrips f allTrips)) = a_routes (analytics coords (xs @ ys)) \<and>
         a_stops (analytics coords (filteredTrips f allTrips)) = a_stops (analytics coords (xs @ ys))"
proof -
  let ?b = "foldl (addTrip coords) empty_acc xs"
  note u = addTrip_unresolved[OF assms(2-5)]
  have m: "missing (addTrip coords ?b t) =
           missing ?b \<union> (if get_prop coords (trip_from t) = None then {trip_from t} else {}) \<union>
           (if get_prop coords (trip_to t) = None then {trip_to t} else {})"
    by (rule u(4))
  have m1: "get_prop coords (trip_from t) = None \<longrightarrow>
      trip_from t \<in> missing (foldl (addTrip coords) (addTrip coords ?b t) ys)"
    using m by (auto intro: foldl_addTrip_missing_mono)
  have m2: "get_prop coords (trip_to t) = None \<longrightarrow>
      trip_to t \<in> missing (foldl (addTrip coords) (addTrip coords ?b t) ys)"
    using m by (auto intro: foldl_addTrip_missing_mono)
  have c: "routeMap (foldl (addTrip coords) (addTrip coords ?b t) ys) =
             routeMap (foldl (addTrip coords) ?b ys) \<and>
           stopMap (foldl (addTrip coords) (addTrip coords ?b t) ys) =
             stopMap (foldl (addTrip coords) ?b ys)"
    by (rule foldl_addTrip_maps_cong) (simp_all add: u(1,2))
  show ?thesis
    using m1 m2 c u(1,2)[of a] by (simp add: assms(1) analytics_def Let_def)
qed

lemma unresolved_endpoint_trip_example:
  "filteredTrips filters_all [journey ''Dam'' ''Dam'', journey ''Dam'' ''Weesp''] =
     [journey ''Dam'' ''Dam''] @ journey ''Dam'' ''Weesp'' # [] \<and>
   transactie (journey ''Dam'' ''Weesp'') = Some ''Reis'' \<and>
   get_prop coords0 (trip_to (journey ''Dam'' ''Weesp'')) = None \<and>
   ''Weesp'' \<in> a_missing (analytics coords0 (filteredTrips filters_all [journey ''Dam'' ''Dam'', journey ''Dam'' ''Weesp''])) \<and>
   a_routes (analytics coords0 (filteredTrips filters_all [journey ''Dam'' ''Dam'', journey ''Dam'' ''Weesp''])) =
     a_routes (analytics coords0 [journey ''Dam'' ''Dam''])"
proof -
  have h1: "filteredTrips filters_all [journey ''Dam'' ''Dam'', journey ''Dam'' ''Weesp''] =
     [journey ''Dam'' ''Dam''] @ journey ''Dam'' ''Weesp'' # []"
    by (simp add: filteredTrips_def keep_journey)
  have h2: "transactie (journey ''Dam'' ''Weesp'') = Some ''Reis''"
    "trip_from (journey ''Dam'' ''Weesp'') \<noteq> []" "trip_to (journey ''Dam'' ''Weesp'') \<noteq> []"
    "get_prop coords0 (trip_from (journey ''Dam'' ''Weesp'')) = None \<or> get_prop coords0 (trip_to (journey ''Dam'' ''Weesp'')) = None"
    by (simp_all add: journey_def trip0_def coords0_def get_prop_def objectPrototypeMembers_def)
  have h3: "get_prop coords0 (trip_to (journey ''Dam'' ''Weesp'')) = None" "trip_to (journey ''Dam'' ''Weesp'') = ''Weesp''"
    by (simp_all add: journey_def coords0_def get_prop_def objectPrototypeMembers_def)
  show ?thesis
    using h1 h2 h3 unresolved_endpoint_trip[OF h1 h2] by simp
qed

subsection \<open>The two directions of a route\<close>

text \<open>
  Claim C3 at the names \<open>x\<close> and \<open>x -> x\<close>. They are distinct and both have coordinates, and
  the route keys of the two directions are the same string \<open>x -> x -> x\<close>. Three journeys
  one way and two the other way give a single route aggregate with count 5.
\<close>

theorem colliding_keys_merge:
  "''x'' \<noteq> ''x -> x'' \<and> coordsX ''x'' \<noteq> None \<and> coordsX ''x -> x'' \<noteq> None \<and>
   map (\<lambda>r. (route_from r, route_to r, count r))
     (a_routes (analytics coordsX
        [journey ''x'' ''x -> x'', journey ''x'' ''x -> x'', journey ''x'' ''x -> x'',
         journey ''x -> x'' ''x'', journey ''x -> x'' ''x''])) = [(''x'', ''x -> x'', 5)]"
  by code_simp

lemma map_snd_update:
  "map (\<lambda>(k, r). (k, g r)) (AList.update k v rm) = AList.update k (g v) (map (\<lambda>(k, r). (k, g r)) rm)"
  by (induction rm) auto

lemma map_of_map_snd:
  "map_of (map (\<lambda>(k, r). (k, g r)) rm) k = map_option g (map_of rm k)"
  by (induction rm) auto

lemma summary_addRoute:
  "summary (addRoute rm t fc tc) =
     AList.update (routeKey (trip_from t) (trip_to t))
       (case map_of (summary rm) (routeKey (trip_from t) (trip_to t)) of
          Some (a, b, c) \<Rightarrow> (a, b, Suc c)
        | None \<Rightarrow> (trip_from t, trip_to t, 1))
       (summary rm)"
  unfolding summary_def addRoute_def Let_def map_snd_update map_of_map_snd
  by (cases "map_of rm (routeKey (trip_from t) (trip_to t))") simp_all

lemma two_way_step_ab:
  assumes "routeKey A B \<noteq> routeKey B A" "two_way A B n m S"
  shows "two_way A B (Suc n) m
     (AList.update (routeKey A B)
       (case map_of S (routeKey A B) of Some (a, b, c) \<Rightarrow> (a, b, Suc c) | None \<Rightarrow> (A, B, 1)) S)"
  using assms by (auto simp: two_way_def Let_def split: if_splits)

lemma two_way_step_ba:
  assumes "routeKey A B \<noteq> routeKey B A" "two_way A B n m S"
  shows "two_way A B n (Suc m)
     (AList.update (routeKey B A)
       (case map_of S (routeKey B A) of Some (a, b, c) \<Rightarrow> (a, b, Suc c) | None \<Rightarrow> (B, A, 1)) S)"
  using assms by (auto simp: two_way_def Let_def split: if_splits)

lemma addTrip_resolved:
  assumes "transactie t = Some ''Reis''" "trip_from t \<noteq> []" "trip_to t \<noteq> []"
    and "get_prop coords (trip_from t) = Some fc" "get_prop coords (trip_to t) = Some tc"
  shows "routeMap (addTrip coords a t) = addRoute (routeMap a) t fc tc"
    and "stopMap (addTrip coords a t) = bump (trip_to t) (bump (trip_from t) (stopMap a))"
    and "missing (addTrip coords a t) = missing a"
  using assms by (simp_all add: addTrip_def Let_def)

lemma two_way_fold:
  assumes k: "routeKey A B \<noteq> routeKey B A"
    and c: "get_prop coords A = Some ca" "get_prop coords B = Some cb" and ne: "A \<noteq> []" "B \<noteq> []"
  shows "\<forall>t \<in> set ts. transactie t = Some ''Reis'' \<and>
            (trip_from t = A \<and> trip_to t = B \<or> trip_from t = B \<and> trip_to t = A) \<Longrightarrow>
         two_way A B n m (summary (routeMap a)) \<Longrightarrow>
         two_way A B (n + length (filter (\<lambda>t. trip_from t = A \<and> trip_to t = B) ts))
                     (m + length (filter (\<lambda>t. trip_from t = B \<and> trip_to t = A) ts))
           (summary (routeMap (foldl (addTrip coords) a ts)))"
proof (induction ts arbitrary: a n m)
  case Nil
  then show ?case by simp
next
  case (Cons t ts)
  have ab: "A \<noteq> B" using k by auto
  have r: "transactie t = Some ''Reis''" using Cons.prems(1) by simp
  have rest: "\<forall>t \<in> set ts. transactie t = Some ''Reis'' \<and>
            (trip_from t = A \<and> trip_to t = B \<or> trip_from t = B \<and> trip_to t = A)"
    using Cons.prems(1) by simp
  consider (AB) "trip_from t = A" "trip_to t = B" | (BA) "trip_from t = B" "trip_to t = A"
    using Cons.prems(1) by auto
  then show ?case
  proof cases
    case AB
    have ra: "routeMap (addTrip coords a t) = addRoute (routeMap a) t ca cb"
      by (rule addTrip_resolved(1)) (simp_all add: r AB c ne)
    have "summary (routeMap (addTrip coords a t)) =
        AList.update (routeKey A B)
          (case map_of (summary (routeMap a)) (routeKey A B) of
             Some (a, b, c) \<Rightarrow> (a, b, Suc c) | None \<Rightarrow> (A, B, 1))
          (summary (routeMap a))"
      unfolding ra summary_addRoute AB by (rule refl)
    then have "two_way A B (Suc n) m (summary (routeMap (addTrip coords a t)))"
      using two_way_step_ab[OF k Cons.prems(2)] by simp
    from Cons.IH[OF rest this] show ?thesis using AB ab by simp
  next
    case BA
    have ra: "routeMap (addTrip coords a t) = addRoute (routeMap a) t cb ca"
      by (rule addTrip_resolved(1)) (simp_all add: r BA c ne)
    have "summary (routeMap (addTrip coords a t)) =
        AList.update (routeKey B A)
          (case map_of (summary (routeMap a)) (routeKey B A) of
             Some (a, b, c) \<Rightarrow> (a, b, Suc c) | None \<Rightarrow> (B, A, 1))
          (summary (routeMap a))"
      unfolding ra summary_addRoute BA by (rule refl)
    then have "two_way A B n (Suc m) (summary (routeMap (addTrip coords a t)))"
      using two_way_step_ba[OF k Cons.prems(2)] by simp
    from Cons.IH[OF rest this] show ?thesis using BA ab by simp
  qed
qed

lemma routes_summary:
  "set (map (\<lambda>r. (route_from r, route_to r, count r)) (a_routes (analytics coords ts))) =
     snd ` set (summary (routeMap (foldl (addTrip coords) empty_acc ts))) \<and>
   length (a_routes (analytics coords ts)) =
     length (summary (routeMap (foldl (addTrip coords) empty_acc ts)))"
  by (force simp: analytics_def Let_def by_count_desc_def summary_def image_iff)

text \<open>
  The keys of the two directions of distinct names differ when neither name has the
  character \<open>>\<close>.
\<close>

lemma takeWhile_key:
  assumes "CHR ''>'' \<notin> set A"
  shows "takeWhile (\<lambda>c. c \<noteq> CHR ''>'') (routeKey A B) = A @ '' -''"
proof -
  have "takeWhile (\<lambda>c. c \<noteq> CHR ''>'') (A @ '' -> '' @ B) =
        A @ takeWhile (\<lambda>c. c \<noteq> CHR ''>'') ('' -> '' @ B)"
    using assms by (intro takeWhile_append2) auto
  then show ?thesis by (simp add: routeKey_def)
qed

lemma routeKey_directions_differ:
  assumes "A \<noteq> B" "CHR ''>'' \<notin> set A" "CHR ''>'' \<notin> set B"
  shows "routeKey A B \<noteq> routeKey B A"
proof
  assume "routeKey A B = routeKey B A"
  then have "takeWhile (\<lambda>c. c \<noteq> CHR ''>'') (routeKey A B) = takeWhile (\<lambda>c. c \<noteq> CHR ''>'') (routeKey B A)"
    by simp
  then have "A @ '' -'' = B @ '' -''"
    by (simp only: takeWhile_key[OF assms(2)] takeWhile_key[OF assms(3)])
  then show False using assms(1) by simp
qed

text \<open>
  Whenever the keys of the two directions differ, the directions are counted apart: journeys
  from \<open>A\<close> to \<open>B\<close> and from \<open>B\<close> to \<open>A\<close>, in any order, give two route aggregates, one
  for each direction with the number of its journeys.
\<close>

theorem directions_apart_when_keys_differ:
  assumes "routeKey A B \<noteq> routeKey B A"
    and "get_prop coords A = Some ca" and "get_prop coords B = Some cb" and "A \<noteq> []" and "B \<noteq> []"
    and "\<forall>t \<in> set ts. transactie t = Some ''Reis'' \<and>
            (trip_from t = A \<and> trip_to t = B \<or> trip_from t = B \<and> trip_to t = A)"
    and "length (filter (\<lambda>t. trip_from t = A \<and> trip_to t = B) ts) = Suc n"
    and "length (filter (\<lambda>t. trip_from t = B \<and> trip_to t = A) ts) = Suc m"
  shows "length (a_routes (analytics coords ts)) = 2 \<and>
         set (map (\<lambda>r. (route_from r, route_to r, count r)) (a_routes (analytics coords ts))) =
           {(A, B, Suc n), (B, A, Suc m)}"
proof -
  have "two_way A B 0 0 (summary (routeMap empty_acc))"
    by (simp add: two_way_def summary_def empty_acc_def)
  from two_way_fold[OF assms(1-6) this]
  have "two_way A B (Suc n) (Suc m) (summary (routeMap (foldl (addTrip coords) empty_acc ts)))"
    by (simp add: assms(7,8))
  then have "summary (routeMap (foldl (addTrip coords) empty_acc ts)) =
               [(routeKey A B, A, B, Suc n), (routeKey B A, B, A, Suc m)] \<or>
             summary (routeMap (foldl (addTrip coords) empty_acc ts)) =
               [(routeKey B A, B, A, Suc m), (routeKey A B, A, B, Suc n)]"
    by (simp add: two_way_def Let_def)
  then show ?thesis
    using routes_summary[of coords ts] by auto
qed

text \<open>
  Three journeys from \<open>Dam\<close> to \<open>Weesp\<close> and two back, both names with coordinates: two
  aggregates, with counts 3 and 2.
\<close>

lemma directions_apart_example:
  "map (\<lambda>r. (route_from r, route_to r, count r))
     (a_routes (analytics (coords0(''Weesp'' \<mapsto> e0))
        [journey ''Dam'' ''Weesp'', journey ''Weesp'' ''Dam'', journey ''Dam'' ''Weesp'',
         journey ''Weesp'' ''Dam'', journey ''Dam'' ''Weesp''])) =
     [(''Dam'', ''Weesp'', 3), (''Weesp'', ''Dam'', 2)]"
  by code_simp

subsection \<open>Dates\<close>








































end
